theory Spec2Isabelle
  imports Main "HOL-Library.Char_ord" "HOL-Library.List_Lexorder" "HOL-Library.Multiset"
begin

section \<open>Supply invariants of the supply keeper (x/supply/keeper/invariants.go)\<close>

text \<open>
  The file \<^verbatim>\<open>invariants.go\<close> holds three checks: \<^verbatim>\<open>SupplierInvariants\<close>,
  \<^verbatim>\<open>TotalSupplyInvariant\<close> and their composition \<^verbatim>\<open>AllInvariants\<close>. They read a
  context (the block header and the stores behind the keepers) and return Go's
  \<^verbatim>\<open>error\<close>, \<^verbatim>\<open>nil\<close> on success. The coin types of package \<^verbatim>\<open>types\<close> and the
  account interfaces of package \<^verbatim>\<open>x/auth\<close> are used by that file and are not part of
  it; they are modelled from the specification, each under a comment that says so.
\<close>

subsection \<open>Coin vectors\<close>

text \<open>
  Modelled from the spec: the type \<^verbatim>\<open>sdk.Coin\<close> / \<^verbatim>\<open>sdk.Coins\<close> (package \<^verbatim>\<open>types\<close>).
  A Coin Vector is an "ordered-by-denomination mapping from denomination string to
  non-negative arbitrary-precision integer": a list of coins, each a denomination and
  an amount, the amount a natural number.
\<close>

datatype Coin = Coin (Denom: string) (Amount: nat)

type_synonym Coins = "Coin list"

text \<open>
  Modelled from the spec: the invariant of a Coin Vector, "no zero or negative entries
  persist", on a vector "ordered by denomination" (each denomination once, in strictly
  increasing order of the denomination strings).
\<close>

definition IsValid :: "Coins \<Rightarrow> bool" where
  "IsValid coins \<longleftrightarrow> sorted_wrt (<) (map Denom coins) \<and> (\<forall>c \<in> set coins. 0 < Amount c)"

definition IsZero :: "Coin \<Rightarrow> bool" where
  "IsZero coin \<longleftrightarrow> Amount coin = 0"

definition removeZeroCoins :: "Coins \<Rightarrow> Coins" where
  "removeZeroCoins coins = filter (\<lambda>c. \<not> IsZero c) coins"

text \<open>
  Modelled from the spec: \<^verbatim>\<open>Coins.Add\<close>. "Addition is per-denomination, merging and
  dropping zero results": the two vectors are merged in the order of their
  denominations, the amounts of a denomination held by both are added, and no coin of
  amount zero is put into the sum.
\<close>

fun Coins_Add :: "Coins \<Rightarrow> Coins \<Rightarrow> Coins" where
  "Coins_Add [] coinsB = removeZeroCoins coinsB"
| "Coins_Add coinsA [] = removeZeroCoins coinsA"
| "Coins_Add (coinA # coinsA) (coinB # coinsB) =
     (if Denom coinA < Denom coinB then
        (if IsZero coinA then Coins_Add coinsA (coinB # coinsB)
         else coinA # Coins_Add coinsA (coinB # coinsB))
      else if Denom coinA = Denom coinB then
        (let res = Coin (Denom coinA) (Amount coinA + Amount coinB)
         in if IsZero res then Coins_Add coinsA coinsB else res # Coins_Add coinsA coinsB)
      else
        (if IsZero coinB then Coins_Add (coinA # coinsA) coinsB
         else coinB # Coins_Add (coinA # coinsA) coinsB))"

text \<open>
  Modelled from the spec: \<^verbatim>\<open>Coins.IsEqual\<close>. "Equality is structural (same
  denominations, same amounts)": the vectors have the same length and agree coin by
  coin.
\<close>

fun Coins_IsEqual :: "Coins \<Rightarrow> Coins \<Rightarrow> bool" where
  "Coins_IsEqual [] [] = True"
| "Coins_IsEqual (coinA # coinsA) (coinB # coinsB) =
     (Denom coinA = Denom coinB \<and> Amount coinA = Amount coinB \<and> Coins_IsEqual coinsA coinsB)"
| "Coins_IsEqual _ _ = False"

text \<open>
  Modelled from the spec: \<^verbatim>\<open>sdk.NewCoin\<close> and \<^verbatim>\<open>sdk.NewCoins\<close>, by which the bonded
  stake is read "as a single-denomination Coin Vector". The vector built from the given
  coins keeps no coin of amount zero and is ordered by denomination. The program calls
  it with one coin only.
\<close>

definition NewCoin :: "string \<Rightarrow> nat \<Rightarrow> Coin" where
  "NewCoin denom amount = Coin denom amount"

definition NewCoins :: "Coin list \<Rightarrow> Coins" where
  "NewCoins coins = sort_key Denom (removeZeroCoins coins)"

text \<open>The amount a vector holds of one denomination (zero when it holds none).\<close>

definition AmountOf :: "Coins \<Rightarrow> string \<Rightarrow> nat" where
  "AmountOf coins denom = sum_list (map Amount (filter (\<lambda>c. Denom c = denom) coins))"

subsection \<open>Fractional coin vectors\<close>

text \<open>
  Modelled from the spec: the type \<^verbatim>\<open>sdk.DecCoin\<close> / \<^verbatim>\<open>sdk.DecCoins\<close>. A Fractional
  Coin Vector is "like Coin Vector but amounts carry a fixed-point fractional
  component". A fixed-point amount is a natural number of smallest fractions, of which
  \<open>precisionReuse\<close> make one whole unit. The spec names no number of fractional
  digits; the decimal type of the program has \<open>Precision = 18\<close> of them.
\<close>

definition Precision :: nat where
  "Precision = 18"

definition precisionReuse :: nat where
  "precisionReuse = 10 ^ Precision"

datatype DecCoin = DecCoin (DecDenom: string) (DecAmount: nat)

type_synonym DecCoins = "DecCoin list"

definition DecIsZero :: "DecCoin \<Rightarrow> bool" where
  "DecIsZero coin \<longleftrightarrow> DecAmount coin = 0"

definition removeZeroDecCoins :: "DecCoins \<Rightarrow> DecCoins" where
  "removeZeroDecCoins coins = filter (\<lambda>c. \<not> DecIsZero c) coins"

text \<open>
  Modelled from the spec: \<^verbatim>\<open>DecCoins.Add\<close>, the addition of Coin Vectors on
  fixed-point amounts.
\<close>

fun DecCoins_Add :: "DecCoins \<Rightarrow> DecCoins \<Rightarrow> DecCoins" where
  "DecCoins_Add [] coinsB = removeZeroDecCoins coinsB"
| "DecCoins_Add coinsA [] = removeZeroDecCoins coinsA"
| "DecCoins_Add (coinA # coinsA) (coinB # coinsB) =
     (if DecDenom coinA < DecDenom coinB then
        (if DecIsZero coinA then DecCoins_Add coinsA (coinB # coinsB)
         else coinA # DecCoins_Add coinsA (coinB # coinsB))
      else if DecDenom coinA = DecDenom coinB then
        (let res = DecCoin (DecDenom coinA) (DecAmount coinA + DecAmount coinB)
         in if DecIsZero res then DecCoins_Add coinsA coinsB
            else res # DecCoins_Add coinsA coinsB)
      else
        (if DecIsZero coinB then DecCoins_Add (coinA # coinsA) coinsB
         else coinB # DecCoins_Add (coinA # coinsA) coinsB))"

text \<open>
  Modelled from the spec: \<^verbatim>\<open>DecCoin.TruncateDecimal\<close> and
  \<^verbatim>\<open>DecCoins.TruncateDecimal\<close>, the "truncate operation producing (integer Coin
  Vector, fractional remainder Fractional Coin Vector)" whose parts add up to the
  argument and whose remainder is less than one unit in every denomination. Neither
  part keeps an entry of amount zero.
\<close>

definition DecCoin_TruncateDecimal :: "DecCoin \<Rightarrow> Coin \<times> DecCoin" where
  "DecCoin_TruncateDecimal coin =
     (Coin (DecDenom coin) (DecAmount coin div precisionReuse),
      DecCoin (DecDenom coin) (DecAmount coin mod precisionReuse))"

fun DecCoins_TruncateDecimal :: "DecCoins \<Rightarrow> Coins \<times> DecCoins" where
  "DecCoins_TruncateDecimal [] = ([], [])"
| "DecCoins_TruncateDecimal (coin # coins) =
     (let (truncated, change) = DecCoin_TruncateDecimal coin;
          (out, changeSum) = DecCoins_TruncateDecimal coins
      in (if IsZero truncated then out else truncated # out,
          if DecIsZero change then changeSum else change # changeSum))"

subsection \<open>Accounts, the supplier and the context\<close>

text \<open>
  Modelled from the spec: the account interfaces of package \<^verbatim>\<open>x/auth\<close>. Every account
  holds coins (\<^verbatim>\<open>GetCoins\<close>). The type assertion \<^verbatim>\<open>acc.(auth.VestingAccount)\<close> succeeds
  on an account that is Vesting-capable and then gives its \<^verbatim>\<open>GetOriginalVesting\<close> and
  \<^verbatim>\<open>GetEndTime\<close> (seconds, a signed 64-bit integer that the program only compares);
  the assertion \<^verbatim>\<open>acc.(auth.ModuleAccount)\<close> succeeds on a Module-owned account. The
  two assertions are independent: "an account can be both Module-owned and
  Vesting-capable".
\<close>

record VestingAccount =
  GetOriginalVesting :: Coins
  GetEndTime :: int

record Account =
  GetCoins :: Coins
  asVestingAccount :: "VestingAccount option"
  isModuleAccount :: bool

text \<open>
  Modelled from the spec: the persisted summary \<^verbatim>\<open>Supplier\<close>, "four Coin Vector
  fields".
\<close>

record Supplier =
  CirculatingSupply :: Coins
  ModulesSupply :: Coins
  InitialVestingSupply :: Coins
  TotalSupply :: Coins

text \<open>
  The context \<^verbatim>\<open>sdk.Context\<close> with what the keepers read from it: the time of the
  block header in Unix seconds, the accounts in the order in which the account keeper
  iterates them, the supplier, the bond denomination and the total of bonded tokens of
  the staking keeper, the collected fees, and the community pool and the total rewards
  of the distribution keeper.
\<close>

record Context =
  BlockTime :: int
  Accounts :: "Account list"
  GetSupplier :: Supplier
  BondDenom :: string
  TotalBondedTokens :: nat
  GetCollectedFees :: Coins
  GetFeePoolCommunityCoins :: DecCoins
  GetTotalRewards :: DecCoins

text \<open>
  Modelled from the spec: \<^verbatim>\<open>AccountKeeper.IterateAccounts\<close>, "an account-iteration
  primitive yielding each account record once". The callback works on the variables it
  captured, here the state \<open>s\<close>, and returns whether the iteration shall stop.
\<close>

fun IterateAccounts :: "Account list \<Rightarrow> (Account \<Rightarrow> 's \<Rightarrow> bool \<times> 's) \<Rightarrow> 's \<Rightarrow> 's" where
  "IterateAccounts [] process s = s"
| "IterateAccounts (acc # accs) process s =
     (let (stop, s') = process acc s
      in if stop then s' else IterateAccounts accs process s')"

subsection \<open>The invariants\<close>

text \<open>
  The error values of \<^verbatim>\<open>invariants.go\<close>: one per message of \<^verbatim>\<open>fmt.Errorf\<close>, with
  the two coin vectors the message prints, the recorded one first.
\<close>

datatype InvariantError =
    CirculatingSupplyInvariance Coins Coins
  | ModulesHoldingsSupplyInvariance Coins Coins
  | VestingSupplyInvariance Coins Coins
  | TotalSupplyInvariance Coins Coins

text \<open>The three variables of \<^verbatim>\<open>SupplierInvariants\<close> that the callback updates.\<close>

record Amounts =
  circulatingAmount :: Coins
  modulesAmount :: Coins
  initialVestingAmount :: Coins

text \<open>
  The callback given to \<^verbatim>\<open>IterateAccounts\<close> (lines 53 to 69), at block time
  \<open>blockTime\<close>.
\<close>

definition processAccount :: "int \<Rightarrow> Account \<Rightarrow> Amounts \<Rightarrow> bool \<times> Amounts" where
  "processAccount blockTime acc s =
     (let s1 = (case asVestingAccount acc of
                  Some vacc \<Rightarrow>
                    if blockTime < GetEndTime vacc
                    then s\<lparr>initialVestingAmount :=
                             Coins_Add (initialVestingAmount s) (GetOriginalVesting vacc)\<rparr>
                    else s
                | None \<Rightarrow> s);
          s2 = (if isModuleAccount acc
                then s1\<lparr>modulesAmount := Coins_Add (modulesAmount s1) (GetCoins acc)\<rparr>
                else s1\<lparr>circulatingAmount := Coins_Add (circulatingAmount s1) (GetCoins acc)\<rparr>)
      in (False, s2))"

text \<open>The three sums after the iteration; the variables start as nil vectors.\<close>

definition aggregate :: "int \<Rightarrow> Account list \<Rightarrow> Amounts" where
  "aggregate blockTime accs =
     IterateAccounts accs (processAccount blockTime)
       \<lparr>circulatingAmount = [], modulesAmount = [], initialVestingAmount = []\<rparr>"

definition SupplierInvariants :: "Context \<Rightarrow> InvariantError option" where
  "SupplierInvariants ctx =
     (let supplier = GetSupplier ctx;
          sums = aggregate (BlockTime ctx) (Accounts ctx)
      in if \<not> Coins_IsEqual (CirculatingSupply supplier) (circulatingAmount sums) then
           Some (CirculatingSupplyInvariance (CirculatingSupply supplier) (circulatingAmount sums))
         else if \<not> Coins_IsEqual (ModulesSupply supplier) (modulesAmount sums) then
           Some (ModulesHoldingsSupplyInvariance (ModulesSupply supplier) (modulesAmount sums))
         else if \<not> Coins_IsEqual (InitialVestingSupply supplier) (initialVestingAmount sums) then
           Some (VestingSupplyInvariance (InitialVestingSupply supplier)
                   (initialVestingAmount sums))
         else None)"

text \<open>The total that \<^verbatim>\<open>TotalSupplyInvariant\<close> computes (lines 100 to 113).\<close>

definition realTotalSupply :: "Context \<Rightarrow> Coins" where
  "realTotalSupply ctx =
     (let supplier = GetSupplier ctx;
          bondedSupply = NewCoins [NewCoin (BondDenom ctx) (TotalBondedTokens ctx)];
          collectedFees = GetCollectedFees ctx;
          (communityPool, remainingCommunityPool) =
             DecCoins_TruncateDecimal (GetFeePoolCommunityCoins ctx);
          (totalRewards, remainingRewards) = DecCoins_TruncateDecimal (GetTotalRewards ctx);
          (remaining, _) =
             DecCoins_TruncateDecimal (DecCoins_Add remainingCommunityPool remainingRewards)
      in Coins_Add (Coins_Add (Coins_Add (Coins_Add (Coins_Add (Coins_Add
           (CirculatingSupply supplier) (ModulesSupply supplier)) bondedSupply)
           collectedFees) communityPool) totalRewards) remaining)"

definition TotalSupplyInvariant :: "Context \<Rightarrow> InvariantError option" where
  "TotalSupplyInvariant ctx =
     (let supplier = GetSupplier ctx
      in if \<not> Coins_IsEqual (TotalSupply supplier) (realTotalSupply ctx) then
           Some (TotalSupplyInvariance (TotalSupply supplier) (realTotalSupply ctx))
         else None)"

definition AllInvariants :: "Context \<Rightarrow> InvariantError option" where
  "AllInvariants ctx =
     (case SupplierInvariants ctx of
        Some err \<Rightarrow> Some err
      | None \<Rightarrow>
          (case TotalSupplyInvariant ctx of
             Some err \<Rightarrow> Some err
           | None \<Rightarrow> None))"

subsection \<open>Sums of coin vectors and well-formed accounts\<close>

text \<open>
  The sum of a list of coin vectors, added one after the other to a variable that
  starts as the nil vector, which is how the callback accumulates its three sums.
\<close>

definition sumCoins :: "Coins list \<Rightarrow> Coins" where
  "sumCoins vectors = foldl Coins_Add [] vectors"

text \<open>
  Modelled from the spec: the coin vectors an account exposes (its holdings, and the
  \<open>originalVestingAmount\<close> of a Vesting-capable account) are Coin Vectors, so they
  satisfy the invariant of Coin Vectors.
\<close>

definition ValidAccount :: "Account \<Rightarrow> bool" where
  "ValidAccount acc \<longleftrightarrow>
     IsValid (GetCoins acc) \<and>
     (case asVestingAccount acc of
        Some vacc \<Rightarrow> IsValid (GetOriginalVesting vacc)
      | None \<Rightarrow> True)"

text \<open>The accounts that contribute to each of the three sums.\<close>

definition circulatingAccounts :: "Account list \<Rightarrow> Account list" where
  "circulatingAccounts accs = filter (\<lambda>acc. \<not> isModuleAccount acc) accs"

definition moduleAccounts :: "Account list \<Rightarrow> Account list" where
  "moduleAccounts accs = filter isModuleAccount accs"

definition lockedVestingAccounts :: "int \<Rightarrow> Account list \<Rightarrow> VestingAccount list" where
  "lockedVestingAccounts blockTime accs =
     filter (\<lambda>vacc. blockTime < GetEndTime vacc) (List.map_filter asVestingAccount accs)"

subsection \<open>A sample context\<close>

text \<open>
  One tenth of a unit as a fixed-point amount, and a context on which the theorems
  below are tried: block time 1000; an ordinary account, a module account, a vesting
  account still locked, a module account that is also a vesting account still locked,
  and a vesting account whose end time is the block time.
\<close>

definition tenth :: nat where
  "tenth = precisionReuse div 10"

definition sampleAccounts :: "Account list" where
  "sampleAccounts =
     [\<lparr>GetCoins = [Coin ''atom'' 100], asVestingAccount = None, isModuleAccount = False\<rparr>,
      \<lparr>GetCoins = [Coin ''atom'' 50], asVestingAccount = None, isModuleAccount = True\<rparr>,
      \<lparr>GetCoins = [Coin ''atom'' 10],
       asVestingAccount =
         Some \<lparr>GetOriginalVesting = [Coin ''atom'' 10], GetEndTime = 2000\<rparr>,
       isModuleAccount = False\<rparr>,
      \<lparr>GetCoins = [Coin ''atom'' 5, Coin ''stake'' 7],
       asVestingAccount =
         Some \<lparr>GetOriginalVesting = [Coin ''atom'' 5], GetEndTime = 3000\<rparr>,
       isModuleAccount = True\<rparr>,
      \<lparr>GetCoins = [Coin ''stake'' 1],
       asVestingAccount =
         Some \<lparr>GetOriginalVesting = [Coin ''stake'' 20], GetEndTime = 1000\<rparr>,
       isModuleAccount = False\<rparr>]"

definition sampleSupplier :: Supplier where
  "sampleSupplier =
     \<lparr>CirculatingSupply = [Coin ''atom'' 110, Coin ''stake'' 1],
      ModulesSupply = [Coin ''atom'' 55, Coin ''stake'' 7],
      InitialVestingSupply = [Coin ''atom'' 15],
      TotalSupply = [Coin ''atom'' 175, Coin ''stake'' 39]\<rparr>"

definition sampleCtx :: Context where
  "sampleCtx =
     \<lparr>BlockTime = 1000,
      Accounts = sampleAccounts,
      GetSupplier = sampleSupplier,
      BondDenom = ''stake'',
      TotalBondedTokens = 30,
      GetCollectedFees = [Coin ''atom'' 2],
      GetFeePoolCommunityCoins = [DecCoin ''atom'' (3 * precisionReuse + 6 * tenth)],
      GetTotalRewards =
        [DecCoin ''atom'' (4 * precisionReuse + 5 * tenth),
         DecCoin ''stake'' (precisionReuse + 2 * tenth)]\<rparr>"

section \<open>Properties of coin vectors\<close>

text \<open>
  \<open>Coins_IsEqual\<close> is equality of the lists. The sum of two vectors holds, of every
  denomination, the sum of the two amounts; the sum of two well-formed vectors is
  well-formed; and a well-formed vector is determined by the amounts it holds. Hence
  addition is commutative and associative on well-formed vectors.
\<close>

lemma Coins_IsEqual_iff: "Coins_IsEqual a b \<longleftrightarrow> a = b"
  by (induction a b rule: Coins_IsEqual.induct) (auto simp: Coin.expand)

lemma AmountOf_Nil [simp]: "AmountOf [] d = 0"
  by (simp add: AmountOf_def)

lemma AmountOf_Cons [simp]:
  "AmountOf (c # cs) d = (if Denom c = d then Amount c else 0) + AmountOf cs d"
  by (simp add: AmountOf_def)

lemma AmountOf_removeZeroCoins [simp]: "AmountOf (removeZeroCoins cs) d = AmountOf cs d"
  by (induction cs) (auto simp: removeZeroCoins_def IsZero_def)

lemma AmountOf_Coins_Add: "AmountOf (Coins_Add a b) d = AmountOf a d + AmountOf b d"
  by (induction a b rule: Coins_Add.induct) (auto simp: Let_def IsZero_def)

lemma set_removeZeroCoins: "set (removeZeroCoins cs) = {c \<in> set cs. 0 < Amount c}"
  by (auto simp: removeZeroCoins_def IsZero_def)

lemma Denom_Coins_Add_mem:
  "c \<in> set (Coins_Add a b) \<Longrightarrow> Denom c \<in> Denom ` set a \<union> Denom ` set b"
proof (induction a b arbitrary: c rule: Coins_Add.induct)
  case (1 coinsB)
  then show ?case by (auto simp: set_removeZeroCoins)
next
  case (2 v va)
  then show ?case by (auto simp: set_removeZeroCoins)
next
  case (3 coinA coinsA coinB coinsB)
  show ?case
  proof (cases "Denom coinA < Denom coinB")
    case True
    with 3 show ?thesis by (cases "IsZero coinA") auto
  next
    case False
    show ?thesis
    proof (cases "Denom coinA = Denom coinB")
      case True
      with 3 show ?thesis
        by (cases "IsZero (Coin (Denom coinA) (Amount coinA + Amount coinB))")
          (auto simp: Let_def)
    next
      case ne: False
      with False 3 show ?thesis by (cases "IsZero coinB") auto
    qed
  qed
qed

lemma Denom_Coins_Add: "Denom ` set (Coins_Add a b) \<subseteq> Denom ` set a \<union> Denom ` set b"
  using Denom_Coins_Add_mem by blast

lemma pos_Coins_Add: "c \<in> set (Coins_Add a b) \<Longrightarrow> 0 < Amount c"
  by (induction a b rule: Coins_Add.induct) (auto simp: Let_def set_removeZeroCoins IsZero_def split: if_splits)

lemma sorted_removeZeroCoins:
  "sorted_wrt (<) (map Denom cs) \<Longrightarrow> sorted_wrt (<) (map Denom (removeZeroCoins cs))"
  by (induction cs) (auto simp: removeZeroCoins_def)

lemma Coins_Add_lower:
  assumes "\<forall>c \<in> set a. d < Denom c" and "\<forall>c \<in> set b. d < Denom c"
  shows "\<forall>c \<in> set (Coins_Add a b). d < Denom c"
  using assms by (auto dest!: Denom_Coins_Add_mem)

lemma sorted_Coins_Add:
  "sorted_wrt (<) (map Denom a) \<Longrightarrow> sorted_wrt (<) (map Denom b) \<Longrightarrow>
   sorted_wrt (<) (map Denom (Coins_Add a b))"
proof (induction a b rule: Coins_Add.induct)
  case (1 coinsB)
  then show ?case by (simp add: sorted_removeZeroCoins)
next
  case (2 v va)
  then show ?case using sorted_removeZeroCoins[of "v # va"] by simp
next
  case (3 coinA coinsA coinB coinsB)
  from "3.prems" have sA: "sorted_wrt (<) (map Denom coinsA)"
    and lA: "\<forall>c \<in> set coinsA. Denom coinA < Denom c"
    and sB: "sorted_wrt (<) (map Denom coinsB)"
    and lB: "\<forall>c \<in> set coinsB. Denom coinB < Denom c"
    by auto
  show ?case
  proof (cases "Denom coinA < Denom coinB")
    case True
    have low: "\<forall>c \<in> set (Coins_Add coinsA (coinB # coinsB)). Denom coinA < Denom c"
      using lA lB True by (intro Coins_Add_lower) auto
    show ?thesis
    proof (cases "IsZero coinA")
      case z: True
      with True "3.IH"(1) sA "3.prems"(2) show ?thesis by simp
    next
      case z: False
      with True "3.IH"(2) sA "3.prems"(2) low show ?thesis by simp
    qed
  next
    case nlt: False
    show ?thesis
    proof (cases "Denom coinA = Denom coinB")
      case True
      have low: "\<forall>c \<in> set (Coins_Add coinsA coinsB). Denom coinA < Denom c"
        using lA lB True by (intro Coins_Add_lower) auto
      show ?thesis
      proof (cases "IsZero (Coin (Denom coinA) (Amount coinA + Amount coinB))")
        case z: True
        with True nlt "3.IH"(3) sA sB show ?thesis by (simp add: Let_def)
      next
        case z: False
        with True nlt "3.IH"(4) sA sB low show ?thesis by (simp add: Let_def)
      qed
    next
      case ne: False
      with nlt have gt: "Denom coinB < Denom coinA" by simp
      have low: "\<forall>c \<in> set (Coins_Add (coinA # coinsA) coinsB). Denom coinB < Denom c"
        using lA lB gt by (intro Coins_Add_lower) auto
      show ?thesis
      proof (cases "IsZero coinB")
        case z: True
        with ne nlt "3.IH"(5) sB "3.prems"(1) show ?thesis by simp
      next
        case z: False
        with ne nlt "3.IH"(6) sB "3.prems"(1) low show ?thesis by simp
      qed
    qed
  qed
qed

lemma IsValid_Coins_Add: "IsValid a \<Longrightarrow> IsValid b \<Longrightarrow> IsValid (Coins_Add a b)"
  unfolding IsValid_def using sorted_Coins_Add pos_Coins_Add by blast

lemma IsValid_Nil [simp]: "IsValid []"
  by (simp add: IsValid_def)

lemma IsValid_ConsD: "IsValid (c # cs) \<Longrightarrow> IsValid cs"
  by (simp add: IsValid_def)

lemma AmountOf_absent: "d \<notin> Denom ` set cs \<Longrightarrow> AmountOf cs d = 0"
  by (induction cs) auto

lemma IsValid_ext:
  "IsValid a \<Longrightarrow> IsValid b \<Longrightarrow> (\<And>d. AmountOf a d = AmountOf b d) \<Longrightarrow> a = b"
proof (induction a arbitrary: b)
  case Nil
  show ?case
  proof (cases b)
    case Nil then show ?thesis by simp
  next
    case (Cons y ys)
    with Nil.prems(2) have "0 < Amount y" "Denom y \<notin> Denom ` set ys"
      by (auto simp: IsValid_def)
    with Nil.prems(3)[of "Denom y"] Cons show ?thesis
      by (simp add: AmountOf_absent)
  qed
next
  case (Cons x xs)
  from Cons.prems(1) have x: "0 < Amount x" "Denom x \<notin> Denom ` set xs"
    "\<forall>c \<in> set xs. Denom x < Denom c" "IsValid xs"
    by (auto simp: IsValid_def)
  show ?case
  proof (cases b)
    case Nil
    with Cons.prems(3)[of "Denom x"] x show ?thesis by simp
  next
    case (Cons y ys)
    from Cons.prems(2) Cons have y: "0 < Amount y" "Denom y \<notin> Denom ` set ys"
      "\<forall>c \<in> set ys. Denom y < Denom c" "IsValid ys"
      by (auto simp: IsValid_def)
    have eq: "\<And>d. AmountOf (x # xs) d = AmountOf (y # ys) d"
      using Cons.prems(3) Cons by simp
    have dx: "Denom x = Denom y"
    proof (rule ccontr)
      assume ne: "Denom x \<noteq> Denom y"
      show False
      proof (cases "Denom x < Denom y")
        case True
        then have "Denom x \<notin> Denom ` set ys" using y(3) by auto
        with eq[of "Denom x"] x ne show False by (simp add: AmountOf_absent)
      next
        case False
        with ne have "Denom y < Denom x" by simp
        then have "Denom y \<notin> Denom ` set xs" using x(3) by auto
        with eq[of "Denom y"] y ne show False by (simp add: AmountOf_absent)
      qed
    qed
    have ax: "Amount x = Amount y"
      using eq[of "Denom x"] dx x(2) y(2) by (simp add: AmountOf_absent)
    have "\<And>d. AmountOf xs d = AmountOf ys d"
    proof -
      fix d
      show "AmountOf xs d = AmountOf ys d"
        using eq[of d] dx ax by (simp split: if_splits)
    qed
    with Cons.IH[OF x(4) y(4)] have "xs = ys" by blast
    with dx ax Cons show ?thesis by (simp add: Coin.expand)
  qed
qed

lemma Coins_Add_commute: "IsValid a \<Longrightarrow> IsValid b \<Longrightarrow> Coins_Add a b = Coins_Add b a"
  by (rule IsValid_ext) (simp_all add: IsValid_Coins_Add AmountOf_Coins_Add)

lemma Coins_Add_assoc:
  "IsValid a \<Longrightarrow> IsValid b \<Longrightarrow> IsValid c \<Longrightarrow>
   Coins_Add (Coins_Add a b) c = Coins_Add a (Coins_Add b c)"
  by (rule IsValid_ext) (simp_all add: IsValid_Coins_Add AmountOf_Coins_Add)

lemma IsValid_foldl_Coins_Add:
  "IsValid init \<Longrightarrow> \<forall>v \<in> set vs. IsValid v \<Longrightarrow> IsValid (foldl Coins_Add init vs)"
  by (induction vs arbitrary: init) (simp_all add: IsValid_Coins_Add)

lemma AmountOf_foldl_Coins_Add:
  "AmountOf (foldl Coins_Add init vs) d = AmountOf init d + sum_list (map (\<lambda>v. AmountOf v d) vs)"
  by (induction vs arbitrary: init) (simp_all add: AmountOf_Coins_Add)

lemma IsValid_sumCoins: "\<forall>v \<in> set vs. IsValid v \<Longrightarrow> IsValid (sumCoins vs)"
  by (simp add: sumCoins_def IsValid_foldl_Coins_Add)

lemma AmountOf_sumCoins: "AmountOf (sumCoins vs) d = sum_list (map (\<lambda>v. AmountOf v d) vs)"
  by (simp add: sumCoins_def AmountOf_foldl_Coins_Add)

lemma sumCoins_mset:
  assumes "mset vs = mset ws" and "\<forall>v \<in> set vs. IsValid v"
  shows "sumCoins vs = sumCoins ws"
proof (rule IsValid_ext)
  show "IsValid (sumCoins vs)" using assms(2) by (rule IsValid_sumCoins)
  have "set ws = set vs" using assms(1) by (metis set_mset_mset)
  with assms(2) show "IsValid (sumCoins ws)" by (simp add: IsValid_sumCoins)
  fix d
  have "mset (map (\<lambda>v. AmountOf v d) vs) = mset (map (\<lambda>v. AmountOf v d) ws)"
    using assms(1) by simp
  then have "sum_list (map (\<lambda>v. AmountOf v d) vs) = sum_list (map (\<lambda>v. AmountOf v d) ws)"
    by (metis sum_mset_sum_list)
  then show "AmountOf (sumCoins vs) d = AmountOf (sumCoins ws) d"
    by (simp add: AmountOf_sumCoins)
qed

lemma sum_list_filter_split:
  "sum_list (map f (filter P xs)) + sum_list (map f (filter (\<lambda>x. \<not> P x) xs)) =
   (sum_list (map f xs) :: nat)"
  by (induction xs) simp_all

section \<open>Properties of the account iteration\<close>

text \<open>
  The callback never asks to stop, so the iteration is a fold of the callback over the
  accounts, and each of the three sums is the sum of the contributions of the accounts
  that contribute to it.
\<close>

lemma processAccount_continue: "fst (processAccount t acc s) = False"
  by (simp add: processAccount_def Let_def)

lemma IterateAccounts_foldl:
  "IterateAccounts accs (processAccount t) s = foldl (\<lambda>s acc. snd (processAccount t acc s)) s accs"
proof (induction accs arbitrary: s)
  case Nil
  show ?case by simp
next
  case (Cons acc accs)
  obtain stop s' where p: "processAccount t acc s = (stop, s')" by (cases "processAccount t acc s")
  with processAccount_continue[of t acc s] have "\<not> stop" by simp
  with p Cons show ?case by simp
qed

lemma circulatingAmount_IterateAccounts:
  "circulatingAmount (IterateAccounts accs (processAccount t) s) =
   foldl Coins_Add (circulatingAmount s) (map GetCoins (circulatingAccounts accs))"
  unfolding IterateAccounts_foldl circulatingAccounts_def
  by (induction accs arbitrary: s) (simp_all add: processAccount_def Let_def split: option.splits)

lemma modulesAmount_IterateAccounts:
  "modulesAmount (IterateAccounts accs (processAccount t) s) =
   foldl Coins_Add (modulesAmount s) (map GetCoins (moduleAccounts accs))"
  unfolding IterateAccounts_foldl moduleAccounts_def
  by (induction accs arbitrary: s) (simp_all add: processAccount_def Let_def split: option.splits)

lemma initialVestingAmount_IterateAccounts:
  "initialVestingAmount (IterateAccounts accs (processAccount t) s) =
   foldl Coins_Add (initialVestingAmount s)
     (map GetOriginalVesting (lockedVestingAccounts t accs))"
  unfolding IterateAccounts_foldl lockedVestingAccounts_def
  by (induction accs arbitrary: s)
     (simp_all add: processAccount_def Let_def List.map_filter_simps split: option.splits)

lemma circulatingAmount_aggregate:
  "circulatingAmount (aggregate t accs) = sumCoins (map GetCoins (circulatingAccounts accs))"
  by (simp add: aggregate_def sumCoins_def circulatingAmount_IterateAccounts)

lemma modulesAmount_aggregate:
  "modulesAmount (aggregate t accs) = sumCoins (map GetCoins (moduleAccounts accs))"
  by (simp add: aggregate_def sumCoins_def modulesAmount_IterateAccounts)

lemma initialVestingAmount_aggregate:
  "initialVestingAmount (aggregate t accs) =
   sumCoins (map GetOriginalVesting (lockedVestingAccounts t accs))"
  by (simp add: aggregate_def sumCoins_def initialVestingAmount_IterateAccounts)

section \<open>Properties of the invariants\<close>

lemmas sample_defs =
  sampleCtx_def sampleSupplier_def sampleAccounts_def tenth_def precisionReuse_def Precision_def

lemmas eval_defs =
  aggregate_def processAccount_def realTotalSupply_def NewCoins_def NewCoin_def
  DecCoin_TruncateDecimal_def IsZero_def DecIsZero_def removeZeroCoins_def
  removeZeroDecCoins_def Let_def

lemma SupplierInvariants_cases:
  "SupplierInvariants ctx =
     (if CirculatingSupply (GetSupplier ctx) \<noteq>
           circulatingAmount (aggregate (BlockTime ctx) (Accounts ctx)) then
        Some (CirculatingSupplyInvariance (CirculatingSupply (GetSupplier ctx))
                (circulatingAmount (aggregate (BlockTime ctx) (Accounts ctx))))
      else if ModulesSupply (GetSupplier ctx) \<noteq>
           modulesAmount (aggregate (BlockTime ctx) (Accounts ctx)) then
        Some (ModulesHoldingsSupplyInvariance (ModulesSupply (GetSupplier ctx))
                (modulesAmount (aggregate (BlockTime ctx) (Accounts ctx))))
      else if InitialVestingSupply (GetSupplier ctx) \<noteq>
           initialVestingAmount (aggregate (BlockTime ctx) (Accounts ctx)) then
        Some (VestingSupplyInvariance (InitialVestingSupply (GetSupplier ctx))
                (initialVestingAmount (aggregate (BlockTime ctx) (Accounts ctx))))
      else None)"
  by (simp add: SupplierInvariants_def Let_def Coins_IsEqual_iff)

lemma TotalSupplyInvariant_cases:
  "TotalSupplyInvariant ctx =
     (if TotalSupply (GetSupplier ctx) = realTotalSupply ctx then None
      else Some (TotalSupplyInvariance (TotalSupply (GetSupplier ctx)) (realTotalSupply ctx)))"
  by (simp add: TotalSupplyInvariant_def Let_def Coins_IsEqual_iff)

lemma aggregate_sample:
  "aggregate 1000 sampleAccounts =
     \<lparr>circulatingAmount = [Coin ''atom'' 110, Coin ''stake'' 1],
      modulesAmount = [Coin ''atom'' 55, Coin ''stake'' 7],
      initialVestingAmount = [Coin ''atom'' 15]\<rparr>"
  by (simp add: sample_defs eval_defs)

text \<open>
  Claim C1. The total-supply check computes
  \<open>reconstructed = CirculatingSupply + ModulesSupply + bondedStake + collectedFees +
  communityWhole + rewardsWhole + carry\<close>, where \<open>communityWhole\<close> and
  \<open>rewardsWhole\<close> are the whole parts of the truncated community pool and total
  rewards and \<open>carry\<close> is the whole part of the truncated sum of the two remainders.
  The check returns no error exactly when the recorded \<open>TotalSupply\<close> is equal to
  \<open>reconstructed\<close>, and otherwise returns the total-supply error with the recorded
  and the reconstructed vector.
\<close>

theorem TotalSupplyInvariant_reconstructed:
  "(let supplier = GetSupplier ctx;
        bondedStake = NewCoins [NewCoin (BondDenom ctx) (TotalBondedTokens ctx)];
        collectedFees = GetCollectedFees ctx;
        communityWhole = fst (DecCoins_TruncateDecimal (GetFeePoolCommunityCoins ctx));
        communityRemainder = snd (DecCoins_TruncateDecimal (GetFeePoolCommunityCoins ctx));
        rewardsWhole = fst (DecCoins_TruncateDecimal (GetTotalRewards ctx));
        rewardsRemainder = snd (DecCoins_TruncateDecimal (GetTotalRewards ctx));
        carry = fst (DecCoins_TruncateDecimal
                       (DecCoins_Add communityRemainder rewardsRemainder));
        reconstructed =
          Coins_Add (Coins_Add (Coins_Add (Coins_Add (Coins_Add (Coins_Add
            (CirculatingSupply supplier) (ModulesSupply supplier)) bondedStake)
            collectedFees) communityWhole) rewardsWhole) carry
    in (TotalSupplyInvariant ctx = None \<longleftrightarrow> TotalSupply supplier = reconstructed) \<and>
       (TotalSupply supplier \<noteq> reconstructed \<longrightarrow>
          TotalSupplyInvariant ctx =
            Some (TotalSupplyInvariance (TotalSupply supplier) reconstructed)))"
  by (simp add: TotalSupplyInvariant_cases realTotalSupply_def Let_def split_beta)

theorem TotalSupplyInvariant_reconstructed_witness:
  "TotalSupplyInvariant sampleCtx = None \<and>
   TotalSupply (GetSupplier sampleCtx) = [Coin ''atom'' 175, Coin ''stake'' 39] \<and>
   TotalSupplyInvariant
     (sampleCtx\<lparr>GetSupplier := sampleSupplier\<lparr>TotalSupply := [Coin ''atom'' 174]\<rparr>\<rparr>) =
     Some (TotalSupplyInvariance [Coin ''atom'' 174] [Coin ''atom'' 175, Coin ''stake'' 39])"
  using TotalSupplyInvariant_reconstructed [of sampleCtx]
    TotalSupplyInvariant_reconstructed
      [of "sampleCtx\<lparr>GetSupplier := sampleSupplier\<lparr>TotalSupply := [Coin ''atom'' 174]\<rparr>\<rparr>"]
  by (simp add: sample_defs eval_defs)

text \<open>
  Claim C2. The supplier check returns no error exactly when the three recorded fields
  \<open>CirculatingSupply\<close>, \<open>ModulesSupply\<close> and \<open>InitialVestingSupply\<close> are
  equal to the three sums aggregated from the accounts. When a recorded field differs
  and the fields compared before it agree (in particular when it is the one field that
  differs), the check returns the error of that field, with the recorded and the
  computed vector.
\<close>

theorem SupplierInvariants_fields:
  "(let supplier = GetSupplier ctx;
        sums = aggregate (BlockTime ctx) (Accounts ctx)
    in (SupplierInvariants ctx = None \<longleftrightarrow>
          CirculatingSupply supplier = circulatingAmount sums \<and>
          ModulesSupply supplier = modulesAmount sums \<and>
          InitialVestingSupply supplier = initialVestingAmount sums) \<and>
       (CirculatingSupply supplier \<noteq> circulatingAmount sums \<longrightarrow>
          SupplierInvariants ctx =
            Some (CirculatingSupplyInvariance (CirculatingSupply supplier)
                    (circulatingAmount sums))) \<and>
       (CirculatingSupply supplier = circulatingAmount sums \<and>
        ModulesSupply supplier \<noteq> modulesAmount sums \<longrightarrow>
          SupplierInvariants ctx =
            Some (ModulesHoldingsSupplyInvariance (ModulesSupply supplier)
                    (modulesAmount sums))) \<and>
       (CirculatingSupply supplier = circulatingAmount sums \<and>
        ModulesSupply supplier = modulesAmount sums \<and>
        InitialVestingSupply supplier \<noteq> initialVestingAmount sums \<longrightarrow>
          SupplierInvariants ctx =
            Some (VestingSupplyInvariance (InitialVestingSupply supplier)
                    (initialVestingAmount sums))))"
  by (simp add: SupplierInvariants_cases Let_def)

theorem SupplierInvariants_fields_witness:
  "SupplierInvariants sampleCtx = None \<and>
   SupplierInvariants
     (sampleCtx\<lparr>GetSupplier := sampleSupplier\<lparr>CirculatingSupply := [Coin ''atom'' 109, Coin ''stake'' 1]\<rparr>\<rparr>) =
     Some (CirculatingSupplyInvariance [Coin ''atom'' 109, Coin ''stake'' 1]
             [Coin ''atom'' 110, Coin ''stake'' 1]) \<and>
   SupplierInvariants
     (sampleCtx\<lparr>GetSupplier := sampleSupplier\<lparr>ModulesSupply := [Coin ''atom'' 55]\<rparr>\<rparr>) =
     Some (ModulesHoldingsSupplyInvariance [Coin ''atom'' 55]
             [Coin ''atom'' 55, Coin ''stake'' 7]) \<and>
   SupplierInvariants
     (sampleCtx\<lparr>GetSupplier := sampleSupplier\<lparr>InitialVestingSupply := []\<rparr>\<rparr>) =
     Some (VestingSupplyInvariance [] [Coin ''atom'' 15])"
  using SupplierInvariants_fields [of sampleCtx]
    SupplierInvariants_fields
      [of "sampleCtx\<lparr>GetSupplier := sampleSupplier\<lparr>CirculatingSupply := [Coin ''atom'' 109, Coin ''stake'' 1]\<rparr>\<rparr>"]
    SupplierInvariants_fields
      [of "sampleCtx\<lparr>GetSupplier := sampleSupplier\<lparr>ModulesSupply := [Coin ''atom'' 55]\<rparr>\<rparr>"]
    SupplierInvariants_fields
      [of "sampleCtx\<lparr>GetSupplier := sampleSupplier\<lparr>InitialVestingSupply := []\<rparr>\<rparr>"]
  by (simp add: sample_defs eval_defs)

text \<open>
  Claim C3. The sum \<open>initialVestingAmount\<close> is the sum of the original vesting amounts
  of the vesting accounts whose end time is strictly after the block time. Processing
  one vesting account leaves the sum as it is when the end time is at most the block
  time, and adds the whole original vesting amount when the end time is later.
\<close>

theorem initialVesting_contribution:
  "initialVestingAmount (aggregate blockTime accs) =
     sumCoins (map GetOriginalVesting (lockedVestingAccounts blockTime accs)) \<and>
   (asVestingAccount acc = Some vacc \<longrightarrow>
      initialVestingAmount (snd (processAccount blockTime acc s)) =
        (if GetEndTime vacc \<le> blockTime then initialVestingAmount s
         else Coins_Add (initialVestingAmount s) (GetOriginalVesting vacc)))"
  by (simp add: initialVestingAmount_aggregate processAccount_def Let_def)

theorem initialVesting_contribution_witness:
  "initialVestingAmount (aggregate 1000 sampleAccounts) = [Coin ''atom'' 15] \<and>
   lockedVestingAccounts 1000 sampleAccounts =
     [\<lparr>GetOriginalVesting = [Coin ''atom'' 10], GetEndTime = 2000\<rparr>,
      \<lparr>GetOriginalVesting = [Coin ''atom'' 5], GetEndTime = 3000\<rparr>] \<and>
   initialVestingAmount (snd (processAccount 1000 (sampleAccounts ! 4)
     \<lparr>circulatingAmount = [], modulesAmount = [], initialVestingAmount = [Coin ''atom'' 15]\<rparr>)) =
     [Coin ''atom'' 15] \<and>
   initialVestingAmount (snd (processAccount 1000 (sampleAccounts ! 2)
     \<lparr>circulatingAmount = [], modulesAmount = [], initialVestingAmount = [Coin ''atom'' 5]\<rparr>)) =
     [Coin ''atom'' 15]"
  using initialVesting_contribution [of 1000 sampleAccounts "sampleAccounts ! 4"
      "\<lparr>GetOriginalVesting = [Coin ''stake'' 20], GetEndTime = 1000\<rparr>"
      "\<lparr>circulatingAmount = [], modulesAmount = [], initialVestingAmount = [Coin ''atom'' 15]\<rparr>"]
    initialVesting_contribution [of 1000 sampleAccounts "sampleAccounts ! 2"
      "\<lparr>GetOriginalVesting = [Coin ''atom'' 10], GetEndTime = 2000\<rparr>"
      "\<lparr>circulatingAmount = [], modulesAmount = [], initialVestingAmount = [Coin ''atom'' 5]\<rparr>"]
  by (simp add: sample_defs eval_defs lockedVestingAccounts_def List.map_filter_simps sumCoins_def)

text \<open>
  Claim C4. For an account that is a module account and a vesting account, the callback
  adds the held coins to \<open>modulesAmount\<close> and leaves \<open>circulatingAmount\<close> as it
  is, and it still adds the original vesting amount to \<open>initialVestingAmount\<close> when
  the block time is before the end time: the split between modules and circulation does
  not depend on the vesting status, nor the vesting sum on the split.
\<close>

theorem module_vesting_account:
  assumes "isModuleAccount acc" and "asVestingAccount acc = Some vacc"
  shows "circulatingAmount (snd (processAccount blockTime acc s)) = circulatingAmount s \<and>
         modulesAmount (snd (processAccount blockTime acc s)) =
           Coins_Add (modulesAmount s) (GetCoins acc) \<and>
         initialVestingAmount (snd (processAccount blockTime acc s)) =
           (if blockTime < GetEndTime vacc
            then Coins_Add (initialVestingAmount s) (GetOriginalVesting vacc)
            else initialVestingAmount s)"
  using assms by (simp add: processAccount_def Let_def)

theorem module_vesting_account_witness:
  "isModuleAccount (sampleAccounts ! 3) \<and>
   asVestingAccount (sampleAccounts ! 3) =
     Some \<lparr>GetOriginalVesting = [Coin ''atom'' 5], GetEndTime = 3000\<rparr> \<and>
   snd (processAccount 1000 (sampleAccounts ! 3)
     \<lparr>circulatingAmount = [Coin ''atom'' 110], modulesAmount = [Coin ''atom'' 50],
      initialVestingAmount = [Coin ''atom'' 10]\<rparr>) =
     \<lparr>circulatingAmount = [Coin ''atom'' 110],
      modulesAmount = [Coin ''atom'' 55, Coin ''stake'' 7],
      initialVestingAmount = [Coin ''atom'' 15]\<rparr>"
proof -
  have m: "isModuleAccount (sampleAccounts ! 3)"
    by (simp add: sampleAccounts_def)
  have v: "asVestingAccount (sampleAccounts ! 3) =
     Some \<lparr>GetOriginalVesting = [Coin ''atom'' 5], GetEndTime = 3000\<rparr>"
    by (simp add: sampleAccounts_def)
  show ?thesis
    using m v module_vesting_account [OF m v, of 1000
      "\<lparr>circulatingAmount = [Coin ''atom'' 110], modulesAmount = [Coin ''atom'' 50],
        initialVestingAmount = [Coin ''atom'' 10]\<rparr>"]
    by (simp add: sample_defs eval_defs)
qed

text \<open>
  Truncation splits a fixed-point amount into whole units and a remainder of less than
  one unit, and the two parts add up to the amount.
\<close>

lemma DecCoin_TruncateDecimal_parts:
  "Amount (fst (DecCoin_TruncateDecimal coin)) * precisionReuse +
     DecAmount (snd (DecCoin_TruncateDecimal coin)) = DecAmount coin"
  "DecAmount (snd (DecCoin_TruncateDecimal coin)) < precisionReuse"
  "Denom (fst (DecCoin_TruncateDecimal coin)) = DecDenom coin"
  "DecDenom (snd (DecCoin_TruncateDecimal coin)) = DecDenom coin"
proof -
  have pos: "0 < precisionReuse"
    by (simp add: precisionReuse_def)
  show "Amount (fst (DecCoin_TruncateDecimal coin)) * precisionReuse +
     DecAmount (snd (DecCoin_TruncateDecimal coin)) = DecAmount coin"
    by (simp add: DecCoin_TruncateDecimal_def)
  show "DecAmount (snd (DecCoin_TruncateDecimal coin)) < precisionReuse"
    using pos by (simp add: DecCoin_TruncateDecimal_def)
  show "Denom (fst (DecCoin_TruncateDecimal coin)) = DecDenom coin"
    by (simp add: DecCoin_TruncateDecimal_def)
  show "DecDenom (snd (DecCoin_TruncateDecimal coin)) = DecDenom coin"
    by (simp add: DecCoin_TruncateDecimal_def)
qed

lemma DecCoins_TruncateDecimal_single:
  assumes "r < precisionReuse"
  shows "DecCoins_TruncateDecimal [DecCoin X (a * precisionReuse + r)] =
           (if a = 0 then [] else [Coin X a], if r = 0 then [] else [DecCoin X r])"
proof -
  have "0 < precisionReuse" by (simp add: precisionReuse_def)
  with assms show ?thesis
    by (simp add: DecCoin_TruncateDecimal_def IsZero_def DecIsZero_def)
qed

lemma tenths_less: "6 * tenth < precisionReuse" "5 * tenth < precisionReuse"
  "tenth < precisionReuse" "6 * tenth + 5 * tenth = 1 * precisionReuse + tenth" "0 < tenth"
  by (simp_all add: tenth_def precisionReuse_def Precision_def)

lemma AmountOf_whole: "AmountOf (if a = 0 then [] else [Coin X a]) X = a"
  by simp

text \<open>
  Claim C5. With a community pool of \<open>a\<close> units and 0.6 of denomination \<open>X\<close> and
  total rewards of \<open>b\<close> units and 0.5 of \<open>X\<close>, the two remainders are 0.6 and 0.5
  of \<open>X\<close>, their sum 1.1 truncates to a carry of 1 unit of \<open>X\<close> with 0.1 left over
  and dropped, and the computed total holds that unit: its amount of \<open>X\<close> is the
  amount of the other components plus \<open>a + b + 1\<close>.
\<close>

theorem remainders_carry:
  "(let ctx' = ctx\<lparr>GetFeePoolCommunityCoins := [DecCoin X (a * precisionReuse + 6 * tenth)],
                   GetTotalRewards := [DecCoin X (b * precisionReuse + 5 * tenth)]\<rparr>;
        supplier = GetSupplier ctx;
        bondedStake = NewCoins [NewCoin (BondDenom ctx) (TotalBondedTokens ctx)];
        communityRemainder = snd (DecCoins_TruncateDecimal (GetFeePoolCommunityCoins ctx'));
        rewardsRemainder = snd (DecCoins_TruncateDecimal (GetTotalRewards ctx'))
    in communityRemainder = [DecCoin X (6 * tenth)] \<and>
       rewardsRemainder = [DecCoin X (5 * tenth)] \<and>
       DecCoins_TruncateDecimal (DecCoins_Add communityRemainder rewardsRemainder) =
         ([Coin X 1], [DecCoin X tenth]) \<and>
       realTotalSupply ctx' =
         Coins_Add (Coins_Add (Coins_Add (Coins_Add (Coins_Add (Coins_Add
           (CirculatingSupply supplier) (ModulesSupply supplier)) bondedStake)
           (GetCollectedFees ctx))
           (fst (DecCoins_TruncateDecimal (GetFeePoolCommunityCoins ctx'))))
           (fst (DecCoins_TruncateDecimal (GetTotalRewards ctx'))))
           [Coin X 1] \<and>
       AmountOf (realTotalSupply ctx') X =
         AmountOf (CirculatingSupply supplier) X + AmountOf (ModulesSupply supplier) X +
         AmountOf bondedStake X + AmountOf (GetCollectedFees ctx) X + a + b + 1)"
proof -
  have c: "DecCoins_TruncateDecimal [DecCoin X (a * precisionReuse + 6 * tenth)] =
      (if a = 0 then [] else [Coin X a], [DecCoin X (6 * tenth)])"
    using DecCoins_TruncateDecimal_single [OF tenths_less(1), of X a] tenths_less(5) by simp
  have r: "DecCoins_TruncateDecimal [DecCoin X (b * precisionReuse + 5 * tenth)] =
      (if b = 0 then [] else [Coin X b], [DecCoin X (5 * tenth)])"
    using DecCoins_TruncateDecimal_single [OF tenths_less(2), of X b] tenths_less(5) by simp
  have s: "DecCoins_Add [DecCoin X (6 * tenth)] [DecCoin X (5 * tenth)] =
      [DecCoin X (precisionReuse + tenth)]"
    using tenths_less(4,5) by (simp add: DecIsZero_def removeZeroDecCoins_def Let_def)
  have t: "DecCoins_TruncateDecimal [DecCoin X (precisionReuse + tenth)] =
      ([Coin X 1], [DecCoin X tenth])"
    using DecCoins_TruncateDecimal_single [OF tenths_less(3), of X 1] tenths_less(5) by simp
  show ?thesis
    by (simp add: realTotalSupply_def Let_def c r s t AmountOf_Coins_Add AmountOf_whole
          del: DecCoins_TruncateDecimal.simps DecCoins_Add.simps)
qed

theorem remainders_carry_witness:
  "DecCoins_TruncateDecimal
     (DecCoins_Add [DecCoin ''atom'' 600000000000000000] [DecCoin ''atom'' 500000000000000000]) =
     ([Coin ''atom'' 1], [DecCoin ''atom'' 100000000000000000]) \<and>
   realTotalSupply
     (sampleCtx\<lparr>GetFeePoolCommunityCoins := [DecCoin ''atom'' 3600000000000000000],
                GetTotalRewards := [DecCoin ''atom'' 4500000000000000000]\<rparr>) =
     [Coin ''atom'' 175, Coin ''stake'' 38]"
  using remainders_carry [where ctx = sampleCtx and X = "''atom''" and a = 3 and b = 4]
  by (simp add: sample_defs eval_defs)

text \<open>
  Claim C6. For accounts whose holdings are Coin Vectors, \<open>circulatingAmount\<close> is the
  sum of the holdings of the accounts that are not module accounts, \<open>modulesAmount\<close>
  the sum of the holdings of the module accounts, and the two add up to the sum \<open>S\<close>
  of the holdings of all accounts: every holding is counted once, in one of the two.
\<close>

theorem circulating_plus_modules:
  assumes "\<forall>acc \<in> set accs. IsValid (GetCoins acc)"
  shows "circulatingAmount (aggregate blockTime accs) =
           sumCoins (map GetCoins (circulatingAccounts accs)) \<and>
         modulesAmount (aggregate blockTime accs) =
           sumCoins (map GetCoins (moduleAccounts accs)) \<and>
         Coins_IsEqual
           (Coins_Add (circulatingAmount (aggregate blockTime accs))
              (modulesAmount (aggregate blockTime accs)))
           (sumCoins (map GetCoins accs))"
proof -
  let ?c = "sumCoins (map GetCoins (circulatingAccounts accs))"
  let ?m = "sumCoins (map GetCoins (moduleAccounts accs))"
  have vc: "IsValid ?c"
    using assms by (intro IsValid_sumCoins) (auto simp: circulatingAccounts_def)
  have vm: "IsValid ?m"
    using assms by (intro IsValid_sumCoins) (auto simp: moduleAccounts_def)
  have vs: "IsValid (sumCoins (map GetCoins accs))"
    using assms by (intro IsValid_sumCoins) auto
  have "Coins_Add ?c ?m = sumCoins (map GetCoins accs)"
  proof (rule IsValid_ext)
    show "IsValid (Coins_Add ?c ?m)" using vc vm by (rule IsValid_Coins_Add)
    show "IsValid (sumCoins (map GetCoins accs))" by (rule vs)
    fix d
    show "AmountOf (Coins_Add ?c ?m) d = AmountOf (sumCoins (map GetCoins accs)) d"
      using sum_list_filter_split [of "\<lambda>acc. AmountOf (GetCoins acc) d" isModuleAccount accs]
      by (simp add: AmountOf_Coins_Add AmountOf_sumCoins circulatingAccounts_def
            moduleAccounts_def comp_def)
  qed
  then show ?thesis
    by (simp add: circulatingAmount_aggregate modulesAmount_aggregate Coins_IsEqual_iff)
qed

theorem circulating_plus_modules_witness:
  "list_all (\<lambda>acc. IsValid (GetCoins acc)) sampleAccounts \<and>
   circulatingAmount (aggregate 1000 sampleAccounts) = [Coin ''atom'' 110, Coin ''stake'' 1] \<and>
   modulesAmount (aggregate 1000 sampleAccounts) = [Coin ''atom'' 55, Coin ''stake'' 7] \<and>
   sumCoins (map GetCoins sampleAccounts) = [Coin ''atom'' 165, Coin ''stake'' 8]"
proof -
  have v: "\<forall>acc \<in> set sampleAccounts. IsValid (GetCoins acc)"
    by (simp add: sampleAccounts_def IsValid_def)
  show ?thesis
    using v circulating_plus_modules [OF v, of 1000]
    by (simp add: sample_defs eval_defs sumCoins_def circulatingAccounts_def
          moduleAccounts_def Coins_IsEqual_iff list_all_iff)
qed

text \<open>
  Claim C7. The three sums do not depend on the order in which the accounts are
  iterated: two orderings of the same accounts (lists with the same multiset of
  accounts), whose coin vectors are Coin Vectors, give equal sums.
\<close>

theorem aggregate_permutation:
  assumes "mset accs = mset accs'" and "\<forall>acc \<in> set accs. ValidAccount acc"
  shows "aggregate blockTime accs = aggregate blockTime accs'"
proof (rule Amounts.equality)
  have "sumCoins (map GetCoins (circulatingAccounts accs)) =
        sumCoins (map GetCoins (circulatingAccounts accs'))"
    using assms by (intro sumCoins_mset) (auto simp: circulatingAccounts_def ValidAccount_def)
  then show "circulatingAmount (aggregate blockTime accs) =
             circulatingAmount (aggregate blockTime accs')"
    by (simp add: circulatingAmount_aggregate)
  have "sumCoins (map GetCoins (moduleAccounts accs)) =
        sumCoins (map GetCoins (moduleAccounts accs'))"
    using assms by (intro sumCoins_mset) (auto simp: moduleAccounts_def ValidAccount_def)
  then show "modulesAmount (aggregate blockTime accs) =
             modulesAmount (aggregate blockTime accs')"
    by (simp add: modulesAmount_aggregate)
  have "sumCoins (map GetOriginalVesting (lockedVestingAccounts blockTime accs)) =
        sumCoins (map GetOriginalVesting (lockedVestingAccounts blockTime accs'))"
  proof (rule sumCoins_mset)
    show "mset (map GetOriginalVesting (lockedVestingAccounts blockTime accs)) =
          mset (map GetOriginalVesting (lockedVestingAccounts blockTime accs'))"
      using assms(1) by (simp add: lockedVestingAccounts_def List.map_filter_def)
    show "\<forall>v \<in> set (map GetOriginalVesting (lockedVestingAccounts blockTime accs)). IsValid v"
      using assms(2)
      by (auto simp: lockedVestingAccounts_def List.map_filter_def ValidAccount_def)
  qed
  then show "initialVestingAmount (aggregate blockTime accs) =
             initialVestingAmount (aggregate blockTime accs')"
    by (simp add: initialVestingAmount_aggregate)
  show "Amounts.more (aggregate blockTime accs) = Amounts.more (aggregate blockTime accs')"
    by simp
qed

theorem aggregate_permutation_witness:
  "mset sampleAccounts = mset (rev sampleAccounts) \<and>
   list_all ValidAccount sampleAccounts \<and>
   rev sampleAccounts \<noteq> sampleAccounts \<and>
   aggregate 1000 (rev sampleAccounts) =
     \<lparr>circulatingAmount = [Coin ''atom'' 110, Coin ''stake'' 1],
      modulesAmount = [Coin ''atom'' 55, Coin ''stake'' 7],
      initialVestingAmount = [Coin ''atom'' 15]\<rparr>"
proof -
  have p: "mset sampleAccounts = mset (rev sampleAccounts)"
    by simp
  have v: "\<forall>acc \<in> set sampleAccounts. ValidAccount acc"
    by (simp add: sampleAccounts_def ValidAccount_def IsValid_def)
  have n: "rev sampleAccounts \<noteq> sampleAccounts"
    by (simp add: sampleAccounts_def)
  show ?thesis
    using p v n aggregate_permutation [OF p v, of 1000] aggregate_sample
    by (simp add: list_all_iff)
qed





text \<open>
  Claim C10. \<open>AllInvariants\<close> returns no error exactly when both checks return none.
  When the supplier check returns an error, \<open>AllInvariants\<close> returns that error,
  whatever the total-supply check would return: its result stays the same under any
  change of what only the total-supply check reads. When the supplier check returns
  none, the result is that of the total-supply check.
\<close>

theorem AllInvariants_composition:
  "(AllInvariants ctx = None \<longleftrightarrow>
      SupplierInvariants ctx = None \<and> TotalSupplyInvariant ctx = None) \<and>
   (SupplierInvariants ctx = Some err \<longrightarrow>
      AllInvariants ctx = Some err \<and>
      AllInvariants (ctx\<lparr>BondDenom := denom, TotalBondedTokens := bonded,
                         GetCollectedFees := fees, GetFeePoolCommunityCoins := pool,
                         GetTotalRewards := rewards\<rparr>) = Some err) \<and>
   (SupplierInvariants ctx = None \<longrightarrow> AllInvariants ctx = TotalSupplyInvariant ctx)"
proof -
  have "SupplierInvariants (ctx\<lparr>BondDenom := denom, TotalBondedTokens := bonded,
                         GetCollectedFees := fees, GetFeePoolCommunityCoins := pool,
                         GetTotalRewards := rewards\<rparr>) = SupplierInvariants ctx"
    by (simp add: SupplierInvariants_def)
  then show ?thesis
    by (auto simp: AllInvariants_def split: option.splits)
qed

theorem AllInvariants_composition_witness:
  "AllInvariants sampleCtx = None \<and>
   SupplierInvariants
     (sampleCtx\<lparr>GetSupplier := sampleSupplier\<lparr>CirculatingSupply := [Coin ''atom'' 99]\<rparr>\<rparr>) =
     Some (CirculatingSupplyInvariance [Coin ''atom'' 99] [Coin ''atom'' 110, Coin ''stake'' 1]) \<and>
   TotalSupplyInvariant
     (sampleCtx\<lparr>GetSupplier := sampleSupplier\<lparr>CirculatingSupply := [Coin ''atom'' 99]\<rparr>\<rparr>) =
     Some (TotalSupplyInvariance [Coin ''atom'' 175, Coin ''stake'' 39]
             [Coin ''atom'' 164, Coin ''stake'' 38]) \<and>
   AllInvariants
     (sampleCtx\<lparr>GetSupplier := sampleSupplier\<lparr>CirculatingSupply := [Coin ''atom'' 99]\<rparr>\<rparr>) =
     Some (CirculatingSupplyInvariance [Coin ''atom'' 99] [Coin ''atom'' 110, Coin ''stake'' 1]) \<and>
   SupplierInvariants
     (sampleCtx\<lparr>GetSupplier := sampleSupplier\<lparr>TotalSupply := [Coin ''atom'' 174]\<rparr>\<rparr>) = None \<and>
   AllInvariants
     (sampleCtx\<lparr>GetSupplier := sampleSupplier\<lparr>TotalSupply := [Coin ''atom'' 174]\<rparr>\<rparr>) =
     Some (TotalSupplyInvariance [Coin ''atom'' 174] [Coin ''atom'' 175, Coin ''stake'' 39])"
  using AllInvariants_composition [where ctx = sampleCtx]
    AllInvariants_composition
      [where ctx = "sampleCtx\<lparr>GetSupplier := sampleSupplier\<lparr>CirculatingSupply := [Coin ''atom'' 99]\<rparr>\<rparr>"
         and err = "CirculatingSupplyInvariance [Coin ''atom'' 99] [Coin ''atom'' 110, Coin ''stake'' 1]"]
    AllInvariants_composition
      [where ctx = "sampleCtx\<lparr>GetSupplier := sampleSupplier\<lparr>TotalSupply := [Coin ''atom'' 174]\<rparr>\<rparr>"]
  by (simp add: SupplierInvariants_cases TotalSupplyInvariant_cases sample_defs eval_defs)

end
